theory Spec2Isabelle
  imports Main "HOL-Library.AList"
begin

section \<open>Python values\<close>

text \<open>
  A Python \<^verbatim>\<open>str\<close> is a sequence of Unicode code points. The mapping file's lines are
  tested with \<^verbatim>\<open>line.strip()\<close>, which looks at code points, so a string is a list of
  code points here. \<open>str_of\<close> writes an ASCII literal.
\<close>

type_synonym pystr = "nat list"

definition str_of :: "string \<Rightarrow> pystr" where
  "str_of s = map of_char s"

text \<open>
  \<^verbatim>\<open>str.isspace\<close> of Python 3 on one code point: U+0009..U+000D, U+001C..U+0020,
  U+0085, U+00A0, U+1680, U+2000..U+200A, U+2028, U+2029, U+202F, U+205F, U+3000.
\<close>

definition isspace :: "nat \<Rightarrow> bool" where
  "isspace c =
     ((9 \<le> c \<and> c \<le> 13) \<or> (28 \<le> c \<and> c \<le> 32) \<or> c = 133 \<or> c = 160 \<or> c = 5760 \<or>
      (8192 \<le> c \<and> c \<le> 8202) \<or> c = 8232 \<or> c = 8233 \<or> c = 8239 \<or> c = 8287 \<or>
      c = 12288)"

text \<open>\<^verbatim>\<open>s.strip()\<close>: leading and trailing whitespace removed.\<close>

definition strip :: "pystr \<Rightarrow> pystr" where
  "strip s = rev (dropWhile isspace (rev (dropWhile isspace s)))"

text \<open>
  The values \<^verbatim>\<open>json.loads\<close> returns and the dictionaries the program builds from
  them. A dictionary is an association list in insertion order with distinct keys
  (\<open>AList.update\<close> is \<^verbatim>\<open>d[k] = v\<close>). No operation of the program looks inside a
  number, so the representation of numbers is the type parameter \<open>'n\<close>.
\<close>

datatype 'n pyval =
    PNone
  | PBool bool
  | PNum 'n
  | PStr pystr
  | PList "'n pyval list"
  | PDict "(pystr \<times> 'n pyval) list"

text \<open>The exceptions that can leave the program's methods. Nothing in the program
  catches an exception.\<close>

datatype exn =
    AttributeError
  | KeyError
  | OSError
  | JSONDecodeError
  | RequestError
  | NotFoundError
  | ConnectionError
  | TransportError

section \<open>The Reindexer object\<close>

text \<open>
  The fields \<^verbatim>\<open>__init__\<close> assigns, and \<^verbatim>\<open>__body\<close>, which only
  \<^verbatim>\<open>create_mapping\<close> assigns: \<open>body r = None\<close> is the attribute not being set,
  \<open>body r = Some PNone\<close> is the attribute holding Python's \<^verbatim>\<open>None\<close>.
\<close>

record 'n reindexer =
  host :: pystr
  port :: int
  mapping_file :: pystr
  "alias" :: pystr
  source_index :: pystr
  target_index :: pystr
  source_type :: pystr
  target_type :: pystr
  body :: "'n pyval option"

definition init ::
  "pystr \<Rightarrow> int \<Rightarrow> pystr \<Rightarrow> pystr \<Rightarrow> pystr \<Rightarrow> pystr \<Rightarrow> pystr \<Rightarrow> pystr \<Rightarrow> 'n reindexer" where
  "init h p mf al si ti st tt =
     \<lparr>host = h, port = p, mapping_file = mf, alias = al, source_index = si,
      target_index = ti, source_type = st, target_type = tt, body = None\<rparr>"

subsection \<open>Reading the mapping file\<close>

text \<open>
  The loop of \<^verbatim>\<open>__get_mappings\<close> over \<^verbatim>\<open>fobj.readlines()\<close>: the first line with
  \<^verbatim>\<open>len(line.strip()) > 0\<close> is given to \<^verbatim>\<open>json.loads\<close>, its value is stored under
  the source type, and the loop breaks. \<^verbatim>\<open>json.loads\<close> is the standard library's: it
  is the parameter \<open>loads\<close>, which returns a value or raises.
\<close>

fun get_mappings_loop ::
  "(pystr \<Rightarrow> exn + 'n pyval) \<Rightarrow> pystr \<Rightarrow> (pystr \<times> 'n pyval) list \<Rightarrow> pystr list \<Rightarrow>
   exn + (pystr \<times> 'n pyval) list" where
  "get_mappings_loop loads st mapping [] = Inr mapping"
| "get_mappings_loop loads st mapping (line # rest) =
     (if length (strip line) > 0 then
        (case loads line of
           Inl e \<Rightarrow> Inl e
         | Inr fields_mapping \<Rightarrow> Inr (AList.update st fields_mapping mapping))
      else get_mappings_loop loads st mapping rest)"

text \<open>
  \<^verbatim>\<open>__get_mappings\<close>. The file system is the parameter \<open>fs\<close>: the lines
  \<^verbatim>\<open>open(path).readlines()\<close> returns, or \<open>None\<close> when the file cannot be read.
\<close>

definition get_mappings ::
  "(pystr \<Rightarrow> exn + 'n pyval) \<Rightarrow> (pystr \<Rightarrow> pystr list option) \<Rightarrow> 'n reindexer \<Rightarrow>
   exn + (pystr \<times> 'n pyval) list" where
  "get_mappings loads fs r =
     (let mapping = [(target_type r, PDict [])] in
      case fs (mapping_file r) of
        None \<Rightarrow> Inl OSError
      | Some lines \<Rightarrow> get_mappings_loop loads (source_type r) mapping lines)"

text \<open>
  \<^verbatim>\<open>create_mapping\<close> returns the exception it raised, if any, and the object as the
  call left it.
\<close>

definition create_mapping ::
  "(pystr \<Rightarrow> exn + 'n pyval) \<Rightarrow> (pystr \<Rightarrow> pystr list option) \<Rightarrow> 'n reindexer \<Rightarrow>
   exn option \<times> 'n reindexer" where
  "create_mapping loads fs r =
     (case get_mappings loads fs r of
        Inl e \<Rightarrow> (Some e, r)
      | Inr mapping \<Rightarrow>
          (let r1 = r\<lparr>body := Some PNone\<rparr> in
           case map_of mapping (target_type r) of
             None \<Rightarrow> (Some KeyError, r1)
           | Some v \<Rightarrow>
               if v \<noteq> PNone
               then (None, r1\<lparr>body := Some (PDict [(str_of ''mappings'', PDict mapping)])\<rparr>)
               else (None, r1)))"

subsection \<open>The requests of reindex\<close>

text \<open>
  The four calls \<^verbatim>\<open>reindex\<close> makes on the Elasticsearch client:
  \<^verbatim>\<open>index_client.create(index, body)\<close>, \<^verbatim>\<open>helpers.reindex(client, source_index,
  target_index)\<close>, \<^verbatim>\<open>index_client.delete(index)\<close> and
  \<^verbatim>\<open>index_client.update_aliases(body)\<close>, whose body
  \<^verbatim>\<open>{'actions': [{"add": {"index": i, "alias": a}}]}\<close> is the list \<open>[Add i a]\<close>.
\<close>

datatype alias_action = Add pystr pystr | Remove pystr pystr

datatype 'n request =
    Create pystr "'n pyval"
  | HelpersReindex pystr pystr
  | Delete pystr
  | UpdateAliases "alias_action list"

text \<open>
  A run of \<^verbatim>\<open>reindex\<close>: the calls made, each with the exception it raised (\<open>None\<close>:
  it returned), the exception that left \<^verbatim>\<open>reindex\<close>, and the cluster afterwards.
\<close>

record ('n, 'c) run =
  calls :: "('n request \<times> exn option) list"
  raised :: "exn option"
  cluster :: 'c

text \<open>
  The client library and the cluster behind it are not part of the program: they are the
  parameter \<open>call\<close>, which answers a request in a cluster state with an exception or a
  normal return, and the next state. One statement of \<^verbatim>\<open>reindex\<close> that makes a call
  is \<open>issue\<close>: it is skipped once an exception has been raised.
\<close>

definition issue ::
  "('n request \<Rightarrow> 'c \<Rightarrow> exn option \<times> 'c) \<Rightarrow> 'n request \<Rightarrow> ('n, 'c) run \<Rightarrow> ('n, 'c) run" where
  "issue call q s =
     (case raised s of
        Some e \<Rightarrow> s
      | None \<Rightarrow>
          (case call q (cluster s) of
             (e, c') \<Rightarrow> \<lparr>calls = calls s @ [(q, e)], raised = e, cluster = c'\<rparr>))"

text \<open>
  \<^verbatim>\<open>reindex\<close>. Reading \<^verbatim>\<open>self.__body\<close> for the first call raises AttributeError when
  the attribute was never assigned. The delete of the source index comes before the
  alias update, as in the source.
\<close>

definition reindex ::
  "('n request \<Rightarrow> 'c \<Rightarrow> exn option \<times> 'c) \<Rightarrow> 'n reindexer \<Rightarrow> 'c \<Rightarrow> ('n, 'c) run" where
  "reindex call r c0 =
     (case body r of
        None \<Rightarrow> \<lparr>calls = [], raised = Some AttributeError, cluster = c0\<rparr>
      | Some b \<Rightarrow>
          (let s0 = \<lparr>calls = [], raised = None, cluster = c0\<rparr>;
               s1 = issue call (Create (target_index r) b) s0;
               s2 = issue call (HelpersReindex (source_index r) (target_index r)) s1;
               add_action = Add (target_index r) (alias r);
               actions = [] @ [add_action];
               s3 = issue call (Delete (source_index r)) s2;
               s4 = issue call (UpdateAliases actions) s3
           in s4))"

subsection \<open>The getters\<close>

definition getHost :: "'n reindexer \<Rightarrow> pystr" where
  "getHost r = host r"

definition getSourceIndex :: "'n reindexer \<Rightarrow> pystr" where
  "getSourceIndex r = source_index r"

definition getTargetIndex :: "'n reindexer \<Rightarrow> pystr" where
  "getTargetIndex r = target_index r"

definition getAlias :: "'n reindexer \<Rightarrow> pystr" where
  "getAlias r = alias r"

definition getSourceType :: "'n reindexer \<Rightarrow> pystr" where
  "getSourceType r = source_type r"

definition getTargetType :: "'n reindexer \<Rightarrow> pystr" where
  "getTargetType r = target_type r"

definition getMapping :: "'n reindexer \<Rightarrow> exn + 'n pyval" where
  "getMapping r = (case body r of None \<Rightarrow> Inl AttributeError | Some b \<Rightarrow> Inr b)"

subsection \<open>Sequences of method calls\<close>

text \<open>
  A caller may invoke \<^verbatim>\<open>create_mapping\<close> and \<^verbatim>\<open>reindex\<close> in any order and catch
  what they raise; the object and the cluster carry over from one call to the next.
\<close>

datatype meth = CreateMapping | Reindex

fun invoke ::
  "(pystr \<Rightarrow> exn + 'n pyval) \<Rightarrow> (pystr \<Rightarrow> pystr list option) \<Rightarrow>
   ('n request \<Rightarrow> 'c \<Rightarrow> exn option \<times> 'c) \<Rightarrow> meth \<Rightarrow> 'n reindexer \<times> 'c \<Rightarrow> 'n reindexer \<times> 'c" where
  "invoke loads fs call CreateMapping (r, c) = (snd (create_mapping loads fs r), c)"
| "invoke loads fs call Reindex (r, c) = (r, cluster (reindex call r c))"

fun invoke_all ::
  "(pystr \<Rightarrow> exn + 'n pyval) \<Rightarrow> (pystr \<Rightarrow> pystr list option) \<Rightarrow>
   ('n request \<Rightarrow> 'c \<Rightarrow> exn option \<times> 'c) \<Rightarrow> meth list \<Rightarrow> 'n reindexer \<times> 'c \<Rightarrow> 'n reindexer \<times> 'c" where
  "invoke_all loads fs call [] s = s"
| "invoke_all loads fs call (m # ms) s = invoke_all loads fs call ms (invoke loads fs call m s)"

section \<open>Clusters for concrete runs\<close>

subsection \<open>A scripted cluster\<close>

text \<open>
  The simplest instance of the parameter \<open>call\<close>: the state is the list of answers still
  to give, one per request, whatever the request; when the list is used up every request
  returns normally.
\<close>

fun scripted :: "'n request \<Rightarrow> exn option list \<Rightarrow> exn option \<times> exn option list" where
  "scripted q [] = (None, [])"
| "scripted q (a # rest) = (a, rest)"

subsection \<open>A reference cluster\<close>

text \<open>
  A second instance of \<open>call\<close>, for the questions that depend on what the cluster holds:
  a small model of an Elasticsearch cluster (version 6 and later) behind the client
  library, which raises RequestError on an HTTP 400 answer and NotFoundError on an HTTP
  404 answer. An index has a name, the body it was created with and the identifiers of
  its documents; an alias binding is a pair of the alias and an index. The model does not
  validate a body: every body is accepted. Neither the library nor the cluster is part of
  the program; the general theorems below hold for every \<open>call\<close>.
\<close>

record 'n es =
  indices :: "(pystr \<times> 'n pyval \<times> nat list) list"
  aliases :: "(pystr \<times> pystr) list"

definition is_index :: "'n es \<Rightarrow> pystr \<Rightarrow> bool" where
  "is_index c n = (n \<in> set (map fst (indices c)))"

definition is_alias :: "'n es \<Rightarrow> pystr \<Rightarrow> bool" where
  "is_alias c a = (a \<in> set (map fst (aliases c)))"

text \<open>The indices an alias resolves to.\<close>

definition resolve :: "'n es \<Rightarrow> pystr \<Rightarrow> pystr list" where
  "resolve c a = map snd (filter (\<lambda>p. fst p = a) (aliases c))"

definition docs_of :: "'n es \<Rightarrow> pystr \<Rightarrow> nat list" where
  "docs_of c n = (case map_of (indices c) n of None \<Rightarrow> [] | Some (b, ds) \<Rightarrow> ds)"

text \<open>One action of an alias update: the index must exist; an alias cannot have the name
  of an index; removing a binding that does not exist is an error.\<close>

fun apply_action :: "alias_action \<Rightarrow> 'n es \<Rightarrow> exn + 'n es" where
  "apply_action (Add i a) c =
     (if \<not> is_index c i then Inl NotFoundError
      else if is_index c a then Inl RequestError
      else Inr (c\<lparr>aliases := List.insert (a, i) (aliases c)\<rparr>))"
| "apply_action (Remove i a) c =
     (if \<not> is_index c i then Inl NotFoundError
      else if (a, i) \<notin> set (aliases c) then Inl NotFoundError
      else Inr (c\<lparr>aliases := removeAll (a, i) (aliases c)\<rparr>))"

fun apply_actions :: "alias_action list \<Rightarrow> 'n es \<Rightarrow> exn + 'n es" where
  "apply_actions [] c = Inr c"
| "apply_actions (x # xs) c =
     (case apply_action x c of Inl e \<Rightarrow> Inl e | Inr c' \<Rightarrow> apply_actions xs c')"

text \<open>
  The four requests. Creating a name that is taken by an index or an alias is an error,
  whatever the body. The copy reads the source index, or the indices a source alias
  resolves to, and adds the documents the target does not hold; a target that is not an
  index is answered with NotFoundError here (a cluster may create it instead; the case
  does not arise in \<^verbatim>\<open>reindex\<close>, which has just created the target). Deleting takes
  the name of an index, not of an alias, and removes the index with its alias bindings. An
  alias update applies all its actions or none.
\<close>

fun es_call :: "'n request \<Rightarrow> 'n es \<Rightarrow> exn option \<times> 'n es" where
  "es_call (Create n b) c =
     (if is_index c n \<or> is_alias c n then (Some RequestError, c)
      else (None, c\<lparr>indices := indices c @ [(n, b, [])]\<rparr>))"
| "es_call (HelpersReindex s t) c =
     (if \<not> is_index c s \<and> \<not> is_alias c s then (Some NotFoundError, c)
      else
        (let ds = (if is_index c s then docs_of c s else concat (map (docs_of c) (resolve c s))) in
         case map_of (indices c) t of
           None \<Rightarrow> (Some NotFoundError, c)
         | Some (b, dt) \<Rightarrow>
             (None, c\<lparr>indices := AList.update t (b, List.union dt ds) (indices c)\<rparr>)))"
| "es_call (Delete n) c =
     (if is_index c n then
        (None, c\<lparr>indices := AList.delete n (indices c),
                 aliases := filter (\<lambda>p. snd p \<noteq> n) (aliases c)\<rparr>)
      else if is_alias c n then (Some RequestError, c)
      else (Some NotFoundError, c))"
| "es_call (UpdateAliases acts) c =
     (case apply_actions acts c of Inl e \<Rightarrow> (Some e, c) | Inr c' \<Rightarrow> (None, c'))"

section \<open>Orderings of the calls of a run\<close>

text \<open>
  Two readings of the order of the cutover, over the calls of a run. The first is the
  specification's: the source index is not deleted unless an alias update that adds the
  alias to the target index has returned before. The second is its mirror image: no alias
  update is made unless the delete of the source index has returned before.
\<close>

fun alias_added_before_delete ::
  "pystr \<Rightarrow> pystr \<Rightarrow> pystr \<Rightarrow> ('n request \<times> exn option) list \<Rightarrow> bool" where
  "alias_added_before_delete al src tgt [] = True"
| "alias_added_before_delete al src tgt ((q, a) # rest) =
     (case q of
        Delete i \<Rightarrow> if i = src then False else alias_added_before_delete al src tgt rest
      | UpdateAliases acts \<Rightarrow>
          if Add tgt al \<in> set acts \<and> a = None then True
          else alias_added_before_delete al src tgt rest
      | _ \<Rightarrow> alias_added_before_delete al src tgt rest)"

fun delete_before_alias_update :: "pystr \<Rightarrow> ('n request \<times> exn option) list \<Rightarrow> bool" where
  "delete_before_alias_update src [] = True"
| "delete_before_alias_update src ((q, a) # rest) =
     (case q of
        UpdateAliases acts \<Rightarrow> False
      | Delete i \<Rightarrow> if i = src \<and> a = None then True else delete_before_alias_update src rest
      | _ \<Rightarrow> delete_before_alias_update src rest)"

section \<open>A worked example\<close>

text \<open>
  The migration of the specification's example: alias \<open>orders\<close>, source index
  \<open>orders_v1\<close>, target index \<open>orders_v2\<close>, one document type. The decoder of the
  example is \<^verbatim>\<open>json.loads\<close> on the three documents the example files hold: the text
  \<^verbatim>\<open>null\<close> decodes to \<^verbatim>\<open>None\<close>, the text \<^verbatim>\<open>{}\<close> to an empty dictionary and the
  text \<^verbatim>\<open>0\<close> to the number 0, whitespace around them allowed. The example gives the
  decoder no other text (on one it raises).
\<close>

definition example_loads :: "pystr \<Rightarrow> exn + int pyval" where
  "example_loads s =
     (if strip s = str_of ''null'' then Inr PNone
      else if strip s = str_of ''{}'' then Inr (PDict [])
      else if strip s = str_of ''0'' then Inr (PNum 0)
      else Inl JSONDecodeError)"

text \<open>A file system that holds the one file \<^verbatim>\<open>mapping.json\<close> with the given lines.\<close>

definition example_fs :: "pystr list \<Rightarrow> pystr \<Rightarrow> pystr list option" where
  "example_fs lines p = (if p = str_of ''mapping.json'' then Some lines else None)"

text \<open>A mapping file of three lines: an empty line, \<^verbatim>\<open>{}\<close> and \<^verbatim>\<open>null\<close>, each ended
  by a newline (code point 10).\<close>

definition orders_file :: "pystr list" where
  "orders_file = [[10], str_of ''{}'' @ [10], str_of ''null'' @ [10]]"

definition orders :: "int reindexer" where
  "orders =
     init (str_of ''localhost'') 9200 (str_of ''mapping.json'') (str_of ''orders'')
       (str_of ''orders_v1'') (str_of ''orders_v2'') (str_of ''doc'') (str_of ''doc'')"

text \<open>The object after \<^verbatim>\<open>create_mapping\<close>, and the body it then holds.\<close>

definition orders_ready :: "int reindexer" where
  "orders_ready = snd (create_mapping example_loads (example_fs orders_file) orders)"

definition orders_body :: "int pyval" where
  "orders_body = PDict [(str_of ''mappings'', PDict [(str_of ''doc'', PDict [])])]"

text \<open>
  A cluster in which the alias \<open>orders\<close> is bound to the source index and to one more
  index, and the same cluster with the target index already there, created with the body
  of the example.
\<close>

definition orders_cluster :: "int es" where
  "orders_cluster =
     \<lparr>indices = [(str_of ''orders_v1'', PNone, [1, 2, 3]), (str_of ''orders_2019'', PNone, [7])],
      aliases = [(str_of ''orders'', str_of ''orders_v1''),
                 (str_of ''orders'', str_of ''orders_2019'')]\<rparr>"

definition orders_cluster_v2 :: "int es" where
  "orders_cluster_v2 =
     orders_cluster\<lparr>indices := indices orders_cluster @ [(str_of ''orders_v2'', orders_body, [])]\<rparr>"

text \<open>The cluster the example's run leaves behind.\<close>

definition orders_cluster_after :: "int es" where
  "orders_cluster_after =
     \<lparr>indices = [(str_of ''orders_2019'', PNone, [7]),
                 (str_of ''orders_v2'', orders_body, [1, 2, 3])],
      aliases = [(str_of ''orders'', str_of ''orders_v2''),
                 (str_of ''orders'', str_of ''orders_2019'')]\<rparr>"

section \<open>Properties of a run of reindex\<close>

subsection \<open>One call at a time\<close>

lemma issue_returned:
  "raised s = None \<Longrightarrow> call q (cluster s) = (a, c') \<Longrightarrow>
   issue call q s = \<lparr>calls = calls s @ [(q, a)], raised = a, cluster = c'\<rparr>"
  by (simp add: issue_def)

lemma body_init: "body (init h p mf al si ti st tt) = None"
  by (simp add: init_def)

lemma reindex_unset:
  "body r = None \<Longrightarrow>
   reindex call r c = \<lparr>calls = [], raised = Some AttributeError, cluster = c\<rparr>"
  by (simp add: reindex_def)

lemma reindex_create_raises:
  assumes "body r = Some b" and "call (Create (target_index r) b) c = (Some e, c')"
  shows "reindex call r c =
    \<lparr>calls = [(Create (target_index r) b, Some e)], raised = Some e, cluster = c'\<rparr>"
  using assms by (simp add: reindex_def issue_def)

lemma reindex_first_call:
  assumes "body r = Some b"
  shows "\<exists>a rest. calls (reindex call r c) = (Create (target_index r) b, a) # rest"
  using assms
  by (auto simp add: reindex_def issue_def Let_def split: option.splits prod.splits)

lemma reindex_returns:
  assumes "body r = Some b" and "raised (reindex call r c) = None"
  shows "\<exists>c1 c2 c3 c4.
     call (Create (target_index r) b) c = (None, c1) \<and>
     call (HelpersReindex (source_index r) (target_index r)) c1 = (None, c2) \<and>
     call (Delete (source_index r)) c2 = (None, c3) \<and>
     call (UpdateAliases [Add (target_index r) (alias r)]) c3 = (None, c4) \<and>
     reindex call r c =
       \<lparr>calls = [(Create (target_index r) b, None),
                 (HelpersReindex (source_index r) (target_index r), None),
                 (Delete (source_index r), None),
                 (UpdateAliases [Add (target_index r) (alias r)], None)],
        raised = None, cluster = c4\<rparr>"
  using assms
  by (auto simp add: reindex_def issue_def Let_def split: option.splits prod.splits)

lemma reindex_delete_raises:
  assumes "body r = Some b"
    and "call (Create (target_index r) b) c = (None, c1)"
    and "call (HelpersReindex (source_index r) (target_index r)) c1 = (None, c2)"
    and "call (Delete (source_index r)) c2 = (Some e, c3)"
  shows "reindex call r c =
    \<lparr>calls = [(Create (target_index r) b, None),
              (HelpersReindex (source_index r) (target_index r), None),
              (Delete (source_index r), Some e)],
     raised = Some e, cluster = c3\<rparr>"
  using assms by (simp add: reindex_def issue_def)

subsection \<open>The reference cluster\<close>

lemma is_index_map_of: "map_of (indices c) n = Some v \<Longrightarrow> is_index c n"
  unfolding is_index_def by (metis map_of_SomeD fst_conv image_eqI set_map)

lemma es_create_returns:
  assumes "es_call (Create n b) c = (None, c')"
  shows "aliases c' = aliases c \<and> (\<forall>m. is_index c' m = (m = n \<or> is_index c m))"
proof -
  from assms have "c' = c\<lparr>indices := indices c @ [(n, b, [])]\<rparr>"
    by (simp split: if_splits)
  then show ?thesis by (auto simp add: is_index_def)
qed

lemma es_copy_returns:
  assumes "es_call (HelpersReindex s t) c = (None, c')"
  shows "aliases c' = aliases c \<and> (\<forall>m. is_index c' m = is_index c m)"
proof -
  from assms obtain b dt ds where t: "map_of (indices c) t = Some (b, dt)"
    and c': "c' = c\<lparr>indices := AList.update t (b, List.union dt ds) (indices c)\<rparr>"
    by (auto simp add: Let_def split: if_splits option.splits prod.splits)
  from is_index_map_of [OF t] have "t \<in> set (map fst (indices c))"
    by (simp add: is_index_def)
  with c' show ?thesis by (simp add: is_index_def update_keys)
qed

lemma es_delete_returns:
  assumes "es_call (Delete n) c = (None, c')"
  shows "aliases c' = filter (\<lambda>p. snd p \<noteq> n) (aliases c) \<and>
   (\<forall>m. is_index c' m = (m \<noteq> n \<and> is_index c m))"
proof -
  from assms have "c' = c\<lparr>indices := AList.delete n (indices c),
                 aliases := filter (\<lambda>p. snd p \<noteq> n) (aliases c)\<rparr>"
    by (simp split: if_splits)
  then have "aliases c' = filter (\<lambda>p. snd p \<noteq> n) (aliases c)"
    and "map fst (indices c') = removeAll n (map fst (indices c))"
    by (simp_all add: delete_keys)
  then show ?thesis unfolding is_index_def by auto
qed

lemma es_add_returns:
  assumes "es_call (UpdateAliases [Add i a]) c = (None, c')"
  shows "is_index c i \<and> aliases c' = List.insert (a, i) (aliases c) \<and>
   (\<forall>m. is_index c' m = is_index c m)"
proof -
  from assms have "is_index c i" and "c' = c\<lparr>aliases := List.insert (a, i) (aliases c)\<rparr>"
    by (simp_all split: if_splits)
  then show ?thesis by (simp add: is_index_def)
qed

text \<open>What a run that returns has done to the reference cluster: the target index is
  there, it is not the source index, and the alias bindings are the old ones without those
  of the source index, with the binding of the alias to the target index added.\<close>

lemma es_run_returns:
  assumes "body r = Some b" and "raised (reindex es_call r c) = None"
  shows "is_index (cluster (reindex es_call r c)) (target_index r) \<and>
         source_index r \<noteq> target_index r \<and>
         aliases (cluster (reindex es_call r c)) =
           List.insert (alias r, target_index r)
             (filter (\<lambda>p. snd p \<noteq> source_index r) (aliases c))"
proof -
  from reindex_returns [OF assms] obtain c1 c2 c3 c4 where
    1: "es_call (Create (target_index r) b) c = (None, c1)" and
    2: "es_call (HelpersReindex (source_index r) (target_index r)) c1 = (None, c2)" and
    3: "es_call (Delete (source_index r)) c2 = (None, c3)" and
    4: "es_call (UpdateAliases [Add (target_index r) (alias r)]) c3 = (None, c4)" and
    run: "reindex es_call r c =
       \<lparr>calls = [(Create (target_index r) b, None),
                 (HelpersReindex (source_index r) (target_index r), None),
                 (Delete (source_index r), None),
                 (UpdateAliases [Add (target_index r) (alias r)], None)],
        raised = None, cluster = c4\<rparr>"
    by blast
  have 5: "cluster (reindex es_call r c) = c4" by (simp add: run)
  note f1 = es_create_returns [OF 1] and f2 = es_copy_returns [OF 2]
    and f3 = es_delete_returns [OF 3] and f4 = es_add_returns [OF 4]
  from f4 have t3: "is_index c3 (target_index r)" by (rule conjunct1)
  from f3 have "is_index c3 (target_index r) =
      (target_index r \<noteq> source_index r \<and> is_index c2 (target_index r))" by blast
  with t3 have src: "source_index r \<noteq> target_index r" by auto
  from f4 t3 have tgt: "is_index c4 (target_index r)" by blast
  from f1 have a1: "aliases c1 = aliases c" by (rule conjunct1)
  from f2 have a2: "aliases c2 = aliases c1" by (rule conjunct1)
  from f3 have a3: "aliases c3 = filter (\<lambda>p. snd p \<noteq> source_index r) (aliases c2)"
    by (rule conjunct1)
  from f4 have a4: "aliases c4 = List.insert (alias r, target_index r) (aliases c3)"
    by blast
  have al: "aliases c4 = List.insert (alias r, target_index r)
      (filter (\<lambda>p. snd p \<noteq> source_index r) (aliases c))"
    by (simp only: a1 a2 a3 a4)
  show ?thesis using src tgt al 5 by simp
qed

subsection \<open>The mapping file\<close>

lemma get_mappings_loop_find:
  "get_mappings_loop loads st m lines =
     (case find (\<lambda>l. 0 < length (strip l)) lines of
        None \<Rightarrow> Inr m
      | Some l \<Rightarrow> (case loads l of Inl e \<Rightarrow> Inl e | Inr v \<Rightarrow> Inr (AList.update st v m)))"
  by (induction lines) simp_all

lemma find_first:
  "\<forall>l\<in>set pre. \<not> P l \<Longrightarrow> P x \<Longrightarrow> find P (pre @ x # post) = Some x"
  by (induction pre) simp_all

subsection \<open>Method calls keep the constructor's fields\<close>

lemma create_mapping_fields:
  "snd (create_mapping loads fs r) = r\<lparr>body := body (snd (create_mapping loads fs r))\<rparr>"
  by (simp add: create_mapping_def Let_def split: sum.splits option.splits)

lemma invoke_fields:
  "invoke loads fs call m (r, c) = (r', c') \<Longrightarrow> r' = r\<lparr>body := body r'\<rparr>"
  by (cases m) (auto intro: create_mapping_fields)

lemma invoke_all_fields:
  "invoke_all loads fs call ms (r, c) = (r', c') \<Longrightarrow> r' = r\<lparr>body := body r'\<rparr>"
proof (induction ms arbitrary: r c)
  case Nil
  then show ?case by simp
next
  case (Cons m ms)
  obtain r1 c1 where 1: "invoke loads fs call m (r, c) = (r1, c1)"
    by (cases "invoke loads fs call m (r, c)")
  with Cons.prems have "invoke_all loads fs call ms (r1, c1) = (r', c')" by simp
  from Cons.IH [OF this] have "r' = r1\<lparr>body := body r'\<rparr>" .
  moreover from invoke_fields [OF 1] have "r1 = r\<lparr>body := body r1\<rparr>" .
  ultimately have "r' = r\<lparr>body := body r1\<rparr>\<lparr>body := body r'\<rparr>" by simp
  then show ?case by simp
qed

lemma invoke_all_reindex_unset:
  "body r = None \<Longrightarrow> invoke_all loads fs call (replicate n Reindex) (r, c) = (r, c)"
  by (induction n) (simp_all add: reindex_unset)

subsection \<open>The example, evaluated\<close>

lemma orders_ready_eq: "orders_ready = orders\<lparr>body := Some orders_body\<rparr>"
  by (simp add: orders_ready_def create_mapping_def get_mappings_def example_fs_def
      orders_file_def orders_def init_def example_loads_def orders_body_def Let_def
      strip_def isspace_def str_of_def)

lemma orders_ready_fields:
  "body orders_ready = Some orders_body"
  "alias orders_ready = str_of ''orders''"
  "source_index orders_ready = str_of ''orders_v1''"
  "target_index orders_ready = str_of ''orders_v2''"
  by (simp_all add: orders_ready_eq orders_def init_def)

lemma orders_run:
  "reindex es_call orders_ready orders_cluster =
    \<lparr>calls = [(Create (str_of ''orders_v2'') orders_body, None),
       (HelpersReindex (str_of ''orders_v1'') (str_of ''orders_v2''), None),
       (Delete (str_of ''orders_v1''), None),
       (UpdateAliases [Add (str_of ''orders_v2'') (str_of ''orders'')], None)],
     raised = None, cluster = orders_cluster_after\<rparr>"
  by (simp add: reindex_def issue_def orders_ready_eq orders_def init_def orders_cluster_def
      orders_cluster_after_def is_index_def is_alias_def docs_of_def str_of_def
      List.union_def List.insert_def)

lemma orders_rerun:
  "reindex es_call orders_ready orders_cluster_after =
    \<lparr>calls = [(Create (str_of ''orders_v2'') orders_body, Some RequestError)],
     raised = Some RequestError, cluster = orders_cluster_after\<rparr>"
  by (simp add: reindex_def issue_def orders_ready_eq orders_def init_def
      orders_cluster_after_def is_index_def is_alias_def str_of_def)

lemma orders_scripted:
  "reindex scripted orders_ready [] =
    \<lparr>calls = [(Create (str_of ''orders_v2'') orders_body, None),
       (HelpersReindex (str_of ''orders_v1'') (str_of ''orders_v2''), None),
       (Delete (str_of ''orders_v1''), None),
       (UpdateAliases [Add (str_of ''orders_v2'') (str_of ''orders'')], None)],
     raised = None, cluster = []\<rparr>"
  by (simp add: reindex_def issue_def orders_ready_eq orders_def init_def)


section \<open>The claims\<close>

subsection \<open>C1: the order of the alias update and the delete\<close>

text \<open>
  C1 as the specification has it: in every run the alias update that adds the alias to the
  target index has returned before the delete of the source index is issued. The example's
  run does not do so: its third call deletes \<open>orders_v1\<close>, and the alias update is its
  fourth call.
\<close>

theorem reindex_alias_before_delete_counterexample:
  "\<not> alias_added_before_delete (alias orders_ready) (source_index orders_ready)
       (target_index orders_ready) (calls (reindex es_call orders_ready orders_cluster))"
  by (simp add: orders_run orders_ready_fields str_of_def)

text \<open>
  C1, amended: in every run of \<^verbatim>\<open>reindex\<close>, against every cluster, the delete of the
  source index is issued and has returned before the alias update is issued; a run that
  returns has made exactly four calls, in the order create, copy, delete of the source
  index, alias update, and the alias update holds the single action that adds the alias to
  the target index.
\<close>

theorem reindex_delete_before_alias_update:
  "delete_before_alias_update (source_index r) (calls (reindex call r c)) \<and>
   (body r = Some b \<and> raised (reindex call r c) = None \<longrightarrow>
    calls (reindex call r c) =
      [(Create (target_index r) b, None),
       (HelpersReindex (source_index r) (target_index r), None),
       (Delete (source_index r), None),
       (UpdateAliases [Add (target_index r) (alias r)], None)])"
proof
  show "delete_before_alias_update (source_index r) (calls (reindex call r c))"
    by (auto simp add: reindex_def issue_def Let_def split: option.splits prod.splits)
next
  show "body r = Some b \<and> raised (reindex call r c) = None \<longrightarrow>
    calls (reindex call r c) =
      [(Create (target_index r) b, None),
       (HelpersReindex (source_index r) (target_index r), None),
       (Delete (source_index r), None),
       (UpdateAliases [Add (target_index r) (alias r)], None)]"
  proof
    assume "body r = Some b \<and> raised (reindex call r c) = None"
    then have "body r = Some b" and "raised (reindex call r c) = None" by simp_all
    from reindex_returns [OF this] show "calls (reindex call r c) =
      [(Create (target_index r) b, None),
       (HelpersReindex (source_index r) (target_index r), None),
       (Delete (source_index r), None),
       (UpdateAliases [Add (target_index r) (alias r)], None)]"
      by auto
  qed
qed

text \<open>The amended C1 on the example's run.\<close>

theorem reindex_delete_before_alias_update_witness:
  "delete_before_alias_update (str_of ''orders_v1'')
     (calls (reindex es_call orders_ready orders_cluster)) \<and>
   calls (reindex es_call orders_ready orders_cluster) =
     [(Create (str_of ''orders_v2'') orders_body, None),
      (HelpersReindex (str_of ''orders_v1'') (str_of ''orders_v2''), None),
      (Delete (str_of ''orders_v1''), None),
      (UpdateAliases [Add (str_of ''orders_v2'') (str_of ''orders'')], None)]"
proof -
  have "raised (reindex es_call orders_ready orders_cluster) = None"
    by (simp add: orders_run)
  with reindex_delete_before_alias_update [of orders_ready es_call orders_cluster orders_body]
  show ?thesis by (simp add: orders_ready_fields)
qed

subsection \<open>C2: running twice\<close>

text \<open>
  C2 as the specification has it: after a run that completed, a second run with the same
  parameters is a no-op, without a re-creation error. In the example the first run
  returns; the second run makes a call, the create of the target index, and raises the
  error the cluster answers for an index that exists.
\<close>

theorem reindex_rerun_counterexample:
  "raised (reindex es_call orders_ready orders_cluster) = None \<and>
   calls (reindex es_call orders_ready (cluster (reindex es_call orders_ready orders_cluster)))
     = [(Create (str_of ''orders_v2'') orders_body, Some RequestError)] \<and>
   raised (reindex es_call orders_ready (cluster (reindex es_call orders_ready orders_cluster)))
     = Some RequestError"
  by (simp add: orders_run orders_rerun)

text \<open>
  C2, amended: \<^verbatim>\<open>reindex\<close> keeps no record of a completed run. Every run of an object
  that holds a body, against every cluster and in whatever state an earlier run left it,
  begins by issuing the create of the target index again. In the reference cluster a run
  that follows a run that returned gets RequestError for that create, since the target
  index now exists; it raises this error, makes no other call (no second copy, delete or
  alias action) and leaves the cluster as the first run left it.
\<close>

theorem reindex_rerun_recreates:
  assumes "body r = Some b"
  shows "(\<exists>a rest. calls (reindex call r c') = (Create (target_index r) b, a) # rest) \<and>
    (raised (reindex es_call r c) = None \<longrightarrow>
     reindex es_call r (cluster (reindex es_call r c)) =
       \<lparr>calls = [(Create (target_index r) b, Some RequestError)],
        raised = Some RequestError,
        cluster = cluster (reindex es_call r c)\<rparr>)"
proof (intro conjI impI)
  show "\<exists>a rest. calls (reindex call r c') = (Create (target_index r) b, a) # rest"
    using assms by (rule reindex_first_call)
next
  assume ok: "raised (reindex es_call r c) = None"
  from es_run_returns [OF assms ok]
  have "is_index (cluster (reindex es_call r c)) (target_index r)" by simp
  then have "es_call (Create (target_index r) b) (cluster (reindex es_call r c)) =
    (Some RequestError, cluster (reindex es_call r c))" by simp
  with assms show "reindex es_call r (cluster (reindex es_call r c)) =
       \<lparr>calls = [(Create (target_index r) b, Some RequestError)],
        raised = Some RequestError,
        cluster = cluster (reindex es_call r c)\<rparr>"
    by (rule reindex_create_raises)
qed

text \<open>The amended C2 on the example: the second run, and its first call.\<close>

theorem reindex_rerun_recreates_witness:
  "(\<exists>a rest. calls (reindex es_call orders_ready orders_cluster_after) =
      (Create (str_of ''orders_v2'') orders_body, a) # rest) \<and>
   reindex es_call orders_ready (cluster (reindex es_call orders_ready orders_cluster)) =
     \<lparr>calls = [(Create (str_of ''orders_v2'') orders_body, Some RequestError)],
      raised = Some RequestError,
      cluster = cluster (reindex es_call orders_ready orders_cluster)\<rparr>"
proof -
  have b: "body orders_ready = Some orders_body" by (simp add: orders_ready_fields)
  have ok: "raised (reindex es_call orders_ready orders_cluster) = None"
    by (simp add: orders_run)
  from reindex_rerun_recreates [OF b, of es_call orders_cluster_after orders_cluster] ok
  show ?thesis by (simp add: orders_ready_fields)
qed

subsection \<open>C3: creating a target index that exists\<close>

text \<open>
  C3 as the specification has it: creating the target index when an index of that name
  exists with an identical mapping counts as success. In the cluster \<open>orders_cluster_v2\<close>
  the target index exists with the very body \<^verbatim>\<open>reindex\<close> sends, and the run raises.
\<close>

theorem reindex_create_existing_counterexample:
  "map_of (indices orders_cluster_v2) (target_index orders_ready) = Some (orders_body, []) \<and>
   body orders_ready = Some orders_body \<and>
   raised (reindex es_call orders_ready orders_cluster_v2) = Some RequestError"
  by (simp add: reindex_def issue_def orders_ready_eq orders_def init_def orders_cluster_v2_def
      orders_cluster_def is_index_def is_alias_def str_of_def)

text \<open>
  C3, amended: \<^verbatim>\<open>reindex\<close> issues the create without looking whether the target index
  exists and handles no answer to it. When the target index exists in the reference
  cluster, with the same mapping or another, the create is answered with RequestError, and
  \<^verbatim>\<open>reindex\<close> raises this error after that one call, the cluster unchanged.
\<close>

theorem reindex_create_existing_raises:
  assumes "body r = Some b" and "is_index c (target_index r)"
  shows "reindex es_call r c =
    \<lparr>calls = [(Create (target_index r) b, Some RequestError)],
     raised = Some RequestError, cluster = c\<rparr>"
proof -
  from assms(2) have "es_call (Create (target_index r) b) c = (Some RequestError, c)"
    by simp
  with assms(1) show ?thesis by (rule reindex_create_raises)
qed

text \<open>The amended C3 on the example's cluster with the target index in it.\<close>

theorem reindex_create_existing_raises_witness:
  "is_index orders_cluster_v2 (str_of ''orders_v2'') \<and>
   reindex es_call orders_ready orders_cluster_v2 =
     \<lparr>calls = [(Create (str_of ''orders_v2'') orders_body, Some RequestError)],
      raised = Some RequestError, cluster = orders_cluster_v2\<rparr>"
proof -
  have b: "body orders_ready = Some orders_body" by (simp add: orders_ready_fields)
  have i: "is_index orders_cluster_v2 (target_index orders_ready)"
    by (simp add: orders_ready_fields is_index_def orders_cluster_v2_def orders_cluster_def)
  from reindex_create_existing_raises [OF b i] i
  show ?thesis by (simp add: orders_ready_fields)
qed

subsection \<open>C4: a create that fails\<close>

text \<open>
  C4: when the create of the target index raises, for whatever reason and against
  whatever cluster, \<^verbatim>\<open>reindex\<close> raises the same exception and the create is the only
  call of the run: no copy, no delete of the source index and no alias update is issued.
\<close>

theorem reindex_create_failure_stops:
  assumes "body r = Some b" and "call (Create (target_index r) b) c = (Some e, c')"
  shows "reindex call r c =
    \<lparr>calls = [(Create (target_index r) b, Some e)], raised = Some e, cluster = c'\<rparr>"
  using assms by (simp add: reindex_def issue_def)

text \<open>C4 on the example, against a cluster that answers the first request with
  RequestError (a mapping conflict is such an answer).\<close>

theorem reindex_create_failure_stops_witness:
  "body orders_ready = Some orders_body \<and>
   scripted (Create (target_index orders_ready) orders_body) [Some RequestError] =
     (Some RequestError, []) \<and>
   reindex scripted orders_ready [Some RequestError] =
     \<lparr>calls = [(Create (str_of ''orders_v2'') orders_body, Some RequestError)],
      raised = Some RequestError, cluster = []\<rparr>"
proof -
  have b: "body orders_ready = Some orders_body" by (simp add: orders_ready_fields)
  have s: "scripted (Create (target_index orders_ready) orders_body) [Some RequestError] =
     (Some RequestError, [])" by simp
  from reindex_create_failure_stops
    [where call = scripted and c = "[Some RequestError]" and c' = "[]", OF b s] b s
  show ?thesis by (simp add: orders_ready_fields)
qed

subsection \<open>C5: the first non-empty line of the mapping file\<close>

text \<open>
  C5: the mapping \<^verbatim>\<open>__get_mappings\<close> returns is made from the first non-empty line of
  the file, decoded as one JSON document, and from nothing else in the file. A line is
  non-empty when it has a character that is not whitespace, as the source tests it with
  \<^verbatim>\<open>len(line.strip()) > 0\<close>. Whatever lines \<open>pre\<close> without such a character come
  before the line and whatever lines \<open>post\<close> come after it, the result is the decoded
  line stored under the source type (or the decoder's exception), the same as for the file
  that holds this line alone.
\<close>

theorem get_mappings_first_nonempty_line:
  assumes "fs (mapping_file r) = Some (pre @ line # post)"
    and "\<forall>l\<in>set pre. length (strip l) = 0"
    and "0 < length (strip line)"
  shows "get_mappings loads fs r =
     (case loads line of
        Inl e \<Rightarrow> Inl e
      | Inr v \<Rightarrow> Inr (AList.update (source_type r) v [(target_type r, PDict [])])) \<and>
     get_mappings loads fs r = get_mappings loads (fs(mapping_file r \<mapsto> [line])) r"
proof -
  have "find (\<lambda>l. 0 < length (strip l)) (pre @ line # post) = Some line"
    using assms(2,3) by (intro find_first) simp_all
  then show ?thesis
    using assms(3) by (simp add: get_mappings_def assms(1) get_mappings_loop_find)
qed

text \<open>C5 on the example's file: the empty first line is skipped, the second line
  \<^verbatim>\<open>{}\<close> is decoded, the third line \<^verbatim>\<open>null\<close> is never looked at.\<close>

theorem get_mappings_first_nonempty_line_witness:
  "example_fs orders_file (mapping_file orders) =
     Some ([[10]] @ (str_of ''{}'' @ [10]) # [str_of ''null'' @ [10]]) \<and>
   length (strip [10]) = 0 \<and>
   0 < length (strip (str_of ''{}'' @ [10])) \<and>
   get_mappings example_loads (example_fs orders_file) orders =
     Inr [(str_of ''doc'', PDict [])] \<and>
   get_mappings example_loads (example_fs orders_file) orders =
     get_mappings example_loads
       ((example_fs orders_file)(mapping_file orders \<mapsto> [str_of ''{}'' @ [10]])) orders"
proof -
  have f: "example_fs orders_file (mapping_file orders) =
     Some ([[10]] @ (str_of ''{}'' @ [10]) # [str_of ''null'' @ [10]])"
    by (simp add: example_fs_def orders_file_def orders_def init_def)
  have p: "\<forall>l\<in>set [[10]]. length (strip l) = 0"
    by (simp add: strip_def isspace_def)
  have n: "0 < length (strip (str_of ''{}'' @ [10]))"
    by (simp add: strip_def isspace_def str_of_def)
  have d: "example_loads (str_of ''{}'' @ [10]) = Inr (PDict [])"
    by (simp add: example_loads_def strip_def isspace_def str_of_def)
  have t: "source_type orders = str_of ''doc''" "target_type orders = str_of ''doc''"
    by (simp_all add: orders_def init_def)
  note w = get_mappings_first_nonempty_line
    [where fs = "example_fs orders_file" and r = orders and pre = "[[10]]"
       and line = "str_of ''{}'' @ [10]" and post = "[str_of ''null'' @ [10]]"
       and loads = example_loads, OF f p n]
  from w have w1: "get_mappings example_loads (example_fs orders_file) orders =
     Inr [(str_of ''doc'', PDict [])]"
    by (simp add: d t)
  from w have w2: "get_mappings example_loads (example_fs orders_file) orders =
     get_mappings example_loads
       ((example_fs orders_file)(mapping_file orders \<mapsto> [str_of ''{}'' @ [10]])) orders"
    by (rule conjunct2)
  from p have p': "length (strip [10]) = 0" by simp
  show ?thesis by (intro conjI) (fact f, fact p', fact n, fact w1, fact w2)
qed

subsection \<open>C6: deleting a source index that does not exist\<close>

text \<open>
  C6 as the specification has it: a delete of the source index that finds no such index
  counts as success. The reference cluster answers NotFoundError to the delete of an index
  it does not hold, and a run whose delete is answered NotFoundError raises it.
\<close>

theorem reindex_delete_missing_counterexample:
  "es_call (Delete (str_of ''orders_v0'')) orders_cluster = (Some NotFoundError, orders_cluster) \<and>
   raised (reindex scripted orders_ready [None, None, Some NotFoundError]) = Some NotFoundError"
  by (simp add: reindex_def issue_def orders_ready_eq orders_def init_def orders_cluster_def
      is_index_def is_alias_def str_of_def)

text \<open>
  C6, amended: \<^verbatim>\<open>reindex\<close> handles no answer to the delete of the source index. When
  the create and the copy have returned and the delete raises, NotFoundError or another
  exception, \<^verbatim>\<open>reindex\<close> raises it after these three calls, and the alias update is
  not issued.
\<close>

theorem reindex_delete_failure_raises:
  assumes "body r = Some b"
    and "call (Create (target_index r) b) c = (None, c1)"
    and "call (HelpersReindex (source_index r) (target_index r)) c1 = (None, c2)"
    and "call (Delete (source_index r)) c2 = (Some e, c3)"
  shows "reindex call r c =
    \<lparr>calls = [(Create (target_index r) b, None),
              (HelpersReindex (source_index r) (target_index r), None),
              (Delete (source_index r), Some e)],
     raised = Some e, cluster = c3\<rparr>"
  using assms by (rule reindex_delete_raises)

text \<open>The amended C6 on the example, against a cluster whose third answer is
  NotFoundError.\<close>

theorem reindex_delete_failure_raises_witness:
  "reindex scripted orders_ready [None, None, Some NotFoundError] =
     \<lparr>calls = [(Create (str_of ''orders_v2'') orders_body, None),
               (HelpersReindex (str_of ''orders_v1'') (str_of ''orders_v2''), None),
               (Delete (str_of ''orders_v1''), Some NotFoundError)],
      raised = Some NotFoundError, cluster = []\<rparr>"
proof -
  have b: "body orders_ready = Some orders_body" by (simp add: orders_ready_fields)
  have 1: "scripted (Create (target_index orders_ready) orders_body)
      [None, None, Some NotFoundError] = (None, [None, Some NotFoundError])" by simp
  have 2: "scripted (HelpersReindex (source_index orders_ready) (target_index orders_ready))
      [None, Some NotFoundError] = (None, [Some NotFoundError])" by simp
  have 3: "scripted (Delete (source_index orders_ready)) [Some NotFoundError] =
      (Some NotFoundError, [])" by simp
  from reindex_delete_failure_raises [where call = scripted, OF b 1 2 3]
  show ?thesis by (simp add: orders_ready_fields)
qed

subsection \<open>C7: what the alias resolves to after a run\<close>

text \<open>
  C7 as the specification has it: after a run that returns, the alias resolves to the
  target index and to no other index. In the example the alias was bound to the source
  index and to \<open>orders_2019\<close> before the run; the run returns, and afterwards the alias
  resolves to the target index and to \<open>orders_2019\<close>.
\<close>

theorem reindex_alias_target_only_counterexample:
  "raised (reindex es_call orders_ready orders_cluster) = None \<and>
   resolve (cluster (reindex es_call orders_ready orders_cluster)) (alias orders_ready) =
     [str_of ''orders_v2'', str_of ''orders_2019''] \<and>
   set (resolve (cluster (reindex es_call orders_ready orders_cluster)) (alias orders_ready)) \<noteq>
     {target_index orders_ready}"
  by (simp add: orders_run orders_ready_fields orders_cluster_after_def resolve_def str_of_def)

text \<open>
  C7, amended: after a run that returns, in the reference cluster, the alias resolves to
  the target index, not to the source index, and to every other index it resolved to
  before the run: \<^verbatim>\<open>reindex\<close> sends no remove action. So the alias resolves to the
  target index only when, before the run, it was bound to no index but the source index.
\<close>

theorem reindex_alias_resolution:
  assumes "body r = Some b" and "raised (reindex es_call r c) = None"
  shows "set (resolve (cluster (reindex es_call r c)) (alias r)) =
         insert (target_index r) (set (resolve c (alias r)) - {source_index r})"
proof -
  from es_run_returns [OF assms]
  have "aliases (cluster (reindex es_call r c)) =
           List.insert (alias r, target_index r)
             (filter (\<lambda>p. snd p \<noteq> source_index r) (aliases c))" by simp
  then show ?thesis by (auto simp add: resolve_def image_iff)
qed

text \<open>The amended C7 on the example.\<close>

theorem reindex_alias_resolution_witness:
  "raised (reindex es_call orders_ready orders_cluster) = None \<and>
   set (resolve (cluster (reindex es_call orders_ready orders_cluster)) (str_of ''orders'')) =
     insert (str_of ''orders_v2'')
       (set (resolve orders_cluster (str_of ''orders'')) - {str_of ''orders_v1''})"
proof -
  have b: "body orders_ready = Some orders_body" by (simp add: orders_ready_fields)
  have ok: "raised (reindex es_call orders_ready orders_cluster) = None"
    by (simp add: orders_run)
  from reindex_alias_resolution [OF b ok] ok
  show ?thesis by (simp add: orders_ready_fields)
qed

subsection \<open>C8: reindex and getMapping before create_mapping\<close>

text \<open>
  C8: on an object on which \<^verbatim>\<open>create_mapping\<close> has not been called, \<^verbatim>\<open>reindex\<close> and
  \<^verbatim>\<open>getMapping\<close> raise AttributeError. The constructor does not assign the body and
  \<^verbatim>\<open>reindex\<close> does not either: after the constructor and any number of calls of
  \<^verbatim>\<open>reindex\<close>, a call of \<^verbatim>\<open>reindex\<close> raises AttributeError without a request to the
  cluster, and \<^verbatim>\<open>getMapping\<close> raises AttributeError.
\<close>

theorem reindex_before_create_mapping:
  "invoke_all loads fs call (replicate n Reindex) (init h p mf al si ti st tt, c) =
     (init h p mf al si ti st tt, c) \<and>
   reindex call (init h p mf al si ti st tt) c =
     \<lparr>calls = [], raised = Some AttributeError, cluster = c\<rparr> \<and>
   getMapping (init h p mf al si ti st tt) = Inl AttributeError"
  by (simp add: invoke_all_reindex_unset reindex_unset getMapping_def body_init)

text \<open>C8 on the example's object, as the constructor made it, after two calls of
  \<^verbatim>\<open>reindex\<close>.\<close>

theorem reindex_before_create_mapping_witness:
  "invoke_all example_loads (example_fs orders_file) es_call [Reindex, Reindex]
     (orders, orders_cluster) = (orders, orders_cluster) \<and>
   reindex es_call orders orders_cluster =
     \<lparr>calls = [], raised = Some AttributeError, cluster = orders_cluster\<rparr> \<and>
   getMapping orders = Inl AttributeError"
proof -
  have "replicate 2 Reindex = [Reindex, Reindex]" by (simp add: numeral_2_eq_2)
  with reindex_before_create_mapping
    [of example_loads "example_fs orders_file" es_call 2 "str_of ''localhost''" 9200
      "str_of ''mapping.json''" "str_of ''orders''" "str_of ''orders_v1''"
      "str_of ''orders_v2''" "str_of ''doc''" "str_of ''doc''" orders_cluster]
  show ?thesis by (simp add: orders_def)
qed

subsection \<open>C9: the body after create_mapping\<close>

text \<open>
  C9 as the specification has it: for every readable mapping file the body after
  \<^verbatim>\<open>create_mapping\<close> is the dictionary with the mapping and never \<^verbatim>\<open>None\<close>. For the
  file whose one line is \<^verbatim>\<open>null\<close>, source type and target type being the same,
  \<^verbatim>\<open>create_mapping\<close> returns and the body is \<^verbatim>\<open>None\<close>.
\<close>

theorem create_mapping_null_counterexample:
  "example_fs [str_of ''null'' @ [10]] (mapping_file orders) = Some [str_of ''null'' @ [10]] \<and>
   create_mapping example_loads (example_fs [str_of ''null'' @ [10]]) orders =
     (None, orders\<lparr>body := Some PNone\<rparr>)"
  by (simp add: create_mapping_def get_mappings_def example_fs_def orders_def init_def
      example_loads_def Let_def strip_def isspace_def str_of_def)

text \<open>
  C9, amended: when \<^verbatim>\<open>__get_mappings\<close> returns (the file is readable and its first
  non-empty line, if there is one, is accepted by the decoder), \<^verbatim>\<open>create_mapping\<close>
  returns and the body is the dictionary \<^verbatim>\<open>{"mappings": mapping}\<close>, unless the target
  type is bound to \<^verbatim>\<open>None\<close>, in which case the body is \<^verbatim>\<open>None\<close>. The target type is
  bound to \<^verbatim>\<open>None\<close> exactly when source type and target type are equal and the first
  non-empty line decodes to \<^verbatim>\<open>None\<close>. It is bound to the empty dictionary when the
  source type differs from the target type, and the mapping is the target type bound to
  the empty dictionary alone when the file has no non-empty line. Otherwise, the types
  being equal, it is bound to the value the first non-empty line decodes to, a dictionary
  or not: whenever there is such a line, the mapping is the target type bound to the empty
  dictionary, updated at the source type with the decoded value.
\<close>

theorem create_mapping_body:
  assumes "get_mappings loads fs r = Inr mapping"
  shows "create_mapping loads fs r =
      (None, r\<lparr>body := Some (if map_of mapping (target_type r) = Some PNone then PNone
                              else PDict [(str_of ''mappings'', PDict mapping)])\<rparr>) \<and>
    (map_of mapping (target_type r) = Some PNone \<longleftrightarrow>
       source_type r = target_type r \<and>
       (\<exists>lines l. fs (mapping_file r) = Some lines \<and>
          find (\<lambda>l. 0 < length (strip l)) lines = Some l \<and> loads l = Inr PNone)) \<and>
    (source_type r \<noteq> target_type r \<longrightarrow> map_of mapping (target_type r) = Some (PDict [])) \<and>
    (\<forall>lines. fs (mapping_file r) = Some lines \<and>
        find (\<lambda>l. 0 < length (strip l)) lines = None \<longrightarrow>
      mapping = [(target_type r, PDict [])]) \<and>
    (\<forall>lines l v. fs (mapping_file r) = Some lines \<and>
        find (\<lambda>l. 0 < length (strip l)) lines = Some l \<and> loads l = Inr v \<longrightarrow>
      mapping = AList.update (source_type r) v [(target_type r, PDict [])] \<and>
      (source_type r = target_type r \<longrightarrow> map_of mapping (target_type r) = Some v))"
proof -
  from assms obtain lines where f: "fs (mapping_file r) = Some lines"
    and loop: "get_mappings_loop loads (source_type r) [(target_type r, PDict [])] lines =
      Inr mapping"
    by (auto simp add: get_mappings_def split: option.splits)
  show ?thesis
  proof (cases "find (\<lambda>l. 0 < length (strip l)) lines")
    case None
    with loop have m: "mapping = [(target_type r, PDict [])]"
      by (simp add: get_mappings_loop_find)
    have "create_mapping loads fs r =
      (None, r\<lparr>body := Some (PDict [(str_of ''mappings'', PDict mapping)])\<rparr>)"
      using assms m by (simp add: create_mapping_def)
    with m f None show ?thesis by simp
  next
    case (Some l)
    with loop obtain v where v: "loads l = Inr v"
      and m: "mapping = AList.update (source_type r) v [(target_type r, PDict [])]"
      by (auto simp add: get_mappings_loop_find split: sum.splits)
    show ?thesis
    proof (cases "source_type r = target_type r")
      case True
      with m have m': "mapping = [(target_type r, v)]" by simp
      have "create_mapping loads fs r =
        (None, r\<lparr>body := Some (if v = PNone then PNone
                                else PDict [(str_of ''mappings'', PDict mapping)])\<rparr>)"
        using assms m' by (simp add: create_mapping_def)
      with m' f Some v True show ?thesis by auto
    next
      case False
      with m have m': "mapping = [(target_type r, PDict []), (source_type r, v)]" by simp
      have "create_mapping loads fs r =
        (None, r\<lparr>body := Some (PDict [(str_of ''mappings'', PDict mapping)])\<rparr>)"
        using assms m' False by (simp add: create_mapping_def)
      with m' f Some v False show ?thesis by auto
    qed
  qed
qed

text \<open>The amended C9 on a file of an empty line, the line \<^verbatim>\<open>0\<close> and the line
  \<^verbatim>\<open>null\<close>: the target type is bound to the number 0, which is not a dictionary, and
  the body holds it.\<close>

theorem create_mapping_body_witness:
  "get_mappings example_loads
     (example_fs [[10], str_of ''0'' @ [10], str_of ''null'' @ [10]]) orders =
     Inr [(str_of ''doc'', PNum 0)] \<and>
   create_mapping example_loads
     (example_fs [[10], str_of ''0'' @ [10], str_of ''null'' @ [10]]) orders =
     (None, orders\<lparr>body := Some (PDict [(str_of ''mappings'', PDict [(str_of ''doc'', PNum 0)])])\<rparr>) \<and>
   [(str_of ''doc'', PNum (0::int))] =
     AList.update (source_type orders) (PNum 0) [(target_type orders, PDict [])] \<and>
   map_of [(str_of ''doc'', PNum (0::int))] (target_type orders) = Some (PNum 0)"
proof -
  let ?fs = "example_fs [[10], str_of ''0'' @ [10], str_of ''null'' @ [10]]"
  have g: "get_mappings example_loads ?fs orders = Inr [(str_of ''doc'', PNum 0)]"
    by (simp add: get_mappings_def example_fs_def orders_def init_def
        example_loads_def Let_def strip_def isspace_def str_of_def)
  have f: "?fs (mapping_file orders) = Some [[10], str_of ''0'' @ [10], str_of ''null'' @ [10]]"
    by (simp add: example_fs_def orders_def init_def)
  have n: "find (\<lambda>l. 0 < length (strip l)) [[10], str_of ''0'' @ [10], str_of ''null'' @ [10]] =
      Some (str_of ''0'' @ [10])"
    by (simp add: strip_def isspace_def str_of_def)
  have d: "example_loads (str_of ''0'' @ [10]) = Inr (PNum 0)"
    by (simp add: example_loads_def strip_def isspace_def str_of_def)
  have t: "source_type orders = target_type orders" "target_type orders = str_of ''doc''"
    by (simp_all add: orders_def init_def)
  note w = create_mapping_body [OF g]
  from w have w1: "create_mapping example_loads ?fs orders =
     (None, orders\<lparr>body := Some (PDict [(str_of ''mappings'', PDict [(str_of ''doc'', PNum 0)])])\<rparr>)"
    by (simp add: t)
  from w f n d have w5: "[(str_of ''doc'', PNum (0::int))] =
       AList.update (source_type orders) (PNum 0) [(target_type orders, PDict [])] \<and>
     (source_type orders = target_type orders \<longrightarrow>
       map_of [(str_of ''doc'', PNum (0::int))] (target_type orders) = Some (PNum 0))"
    by blast
  from w5 have w6: "[(str_of ''doc'', PNum (0::int))] =
       AList.update (source_type orders) (PNum 0) [(target_type orders, PDict [])]"
    by (rule conjunct1)
  from w5 t(1) have w7: "map_of [(str_of ''doc'', PNum (0::int))] (target_type orders) =
      Some (PNum 0)"
    by blast
  show ?thesis by (intro conjI) (fact g, fact w1, fact w6, fact w7)
qed

subsection \<open>C10: the constructor's fields\<close>

text \<open>
  C10: whatever sequence of \<^verbatim>\<open>create_mapping\<close> and \<^verbatim>\<open>reindex\<close> calls is made on an
  object, whether they return or raise, against every file system, decoder and cluster,
  the six getters return afterwards the values that were given to the constructor.
\<close>

theorem getters_return_constructor_values:
  "getHost (fst (invoke_all loads fs call ms (init h p mf al si ti st tt, c))) = h \<and>
   getSourceIndex (fst (invoke_all loads fs call ms (init h p mf al si ti st tt, c))) = si \<and>
   getTargetIndex (fst (invoke_all loads fs call ms (init h p mf al si ti st tt, c))) = ti \<and>
   getAlias (fst (invoke_all loads fs call ms (init h p mf al si ti st tt, c))) = al \<and>
   getSourceType (fst (invoke_all loads fs call ms (init h p mf al si ti st tt, c))) = st \<and>
   getTargetType (fst (invoke_all loads fs call ms (init h p mf al si ti st tt, c))) = tt"
proof -
  obtain r' c' where s: "invoke_all loads fs call ms (init h p mf al si ti st tt, c) = (r', c')"
    by (cases "invoke_all loads fs call ms (init h p mf al si ti st tt, c)")
  from invoke_all_fields [OF s]
  have "r' = (init h p mf al si ti st tt)\<lparr>body := body r'\<rparr>" .
  then have "host r' = h \<and> source_index r' = si \<and> target_index r' = ti \<and> alias r' = al \<and>
      source_type r' = st \<and> target_type r' = tt"
    by (metis (no_types) init_def reindexer.select_convs(1,4,5,6,7,8)
        reindexer.surjective reindexer.update_convs(9))
  with s show ?thesis
    by (simp add: getHost_def getSourceIndex_def getTargetIndex_def getAlias_def
        getSourceType_def getTargetType_def)
qed

text \<open>C10 on the example: \<^verbatim>\<open>reindex\<close> (which raises), \<^verbatim>\<open>create_mapping\<close>, and
  \<^verbatim>\<open>reindex\<close> twice (the second raises).\<close>

theorem getters_return_constructor_values_witness:
  "getHost (fst (invoke_all example_loads (example_fs orders_file) es_call
      [Reindex, CreateMapping, Reindex, Reindex] (orders, orders_cluster))) = str_of ''localhost'' \<and>
   getSourceIndex (fst (invoke_all example_loads (example_fs orders_file) es_call
      [Reindex, CreateMapping, Reindex, Reindex] (orders, orders_cluster))) = str_of ''orders_v1'' \<and>
   getTargetIndex (fst (invoke_all example_loads (example_fs orders_file) es_call
      [Reindex, CreateMapping, Reindex, Reindex] (orders, orders_cluster))) = str_of ''orders_v2'' \<and>
   getAlias (fst (invoke_all example_loads (example_fs orders_file) es_call
      [Reindex, CreateMapping, Reindex, Reindex] (orders, orders_cluster))) = str_of ''orders'' \<and>
   getSourceType (fst (invoke_all example_loads (example_fs orders_file) es_call
      [Reindex, CreateMapping, Reindex, Reindex] (orders, orders_cluster))) = str_of ''doc'' \<and>
   getTargetType (fst (invoke_all example_loads (example_fs orders_file) es_call
      [Reindex, CreateMapping, Reindex, Reindex] (orders, orders_cluster))) = str_of ''doc''"
  unfolding orders_def
  by (rule getters_return_constructor_values)


end
